theory Spec2Isabelle
  imports Complex_Main "HOL-Library.AList"
begin

section \<open>SkillGuard: dependency reconciliation and risk scoring\<close>

text \<open>
  A shallow embedding of the TypeScript sources \<^verbatim>\<open>scorer.ts\<close>, \<^verbatim>\<open>dependencies.ts\<close>
  and \<^verbatim>\<open>vulnerabilities.ts\<close>. Strings are \<^typ>\<open>string\<close>; the texts the program handles
  (package names, severities, versions, categories) are ASCII. The file system, the
  subprocesses and the network are inputs of the model: each call that can fail takes its
  outcome as a value, and every \<^verbatim>\<open>throw\<close> is a branch.
\<close>

subsection \<open>Types (types.ts)\<close>

datatype RiskSeverity = Critical | High | Medium | Low

datatype Source = ThreatDb | NpmAudit | Osv | Pattern

text \<open>The interface \<^verbatim>\<open>Finding\<close>; the optional \<^verbatim>\<open>language\<close> is a string tag.\<close>

record Finding =
  f_file :: string
  f_line :: nat
  f_column :: nat
  f_severity :: RiskSeverity
  f_category :: string
  f_description :: string
  f_codeSnippet :: string
  f_language :: "string option"

text \<open>
  The interface \<^verbatim>\<open>DependencyFinding\<close>. An optional field is an \<^typ>\<open>'a option\<close>;
  \<^verbatim>\<open>cvssScore\<close> is carried along and never computed with, so it is kept as the text
  of the number.
\<close>

record DependencyFinding =
  d_name :: string
  d_severity :: RiskSeverity
  d_reason :: string
  d_version :: "string option"
  d_vulnerableVersions :: "string option"
  d_cveId :: "string option"
  d_cvssScore :: "string option"
  d_source :: "Source option"
  d_fixAvailable :: "string option"
  d_url :: "string option"

datatype RiskLevel = SafeLevel | LowLevel | MediumLevel | HighLevel | CriticalLevel

subsection \<open>JavaScript values the scorer computes with\<close>

text \<open>
  Every number the scorer adds is an integer far below \<open>2^53\<close>, so a number is an
  \<^typ>\<open>int\<close> or \<^verbatim>\<open>NaN\<close>. Arithmetic and comparisons follow IEEE: an operation with a
  \<^verbatim>\<open>NaN\<close> operand gives \<^verbatim>\<open>NaN\<close>, a comparison with one is false.
\<close>

datatype js_number = Num int | NaN

fun js_add :: "js_number \<Rightarrow> js_number \<Rightarrow> js_number" where
  "js_add (Num a) (Num b) = Num (a + b)"
| "js_add _ _ = NaN"

fun Math_max :: "js_number \<Rightarrow> js_number \<Rightarrow> js_number" where
  "Math_max (Num a) (Num b) = Num (max a b)"
| "Math_max _ _ = NaN"

fun Math_min :: "js_number \<Rightarrow> js_number \<Rightarrow> js_number" where
  "Math_min (Num a) (Num b) = Num (min a b)"
| "Math_min _ _ = NaN"

fun js_le :: "js_number \<Rightarrow> js_number \<Rightarrow> bool" where
  "js_le (Num a) (Num b) = (a \<le> b)"
| "js_le _ _ = False"

fun js_strict_eq :: "js_number \<Rightarrow> js_number \<Rightarrow> bool" where
  "js_strict_eq (Num a) (Num b) = (a = b)"
| "js_strict_eq _ _ = False"

text \<open>
  What reading a property of the object literal \<^verbatim>\<open>CATEGORY_WEIGHTS\<close> gives: the
  number stored under an own key, \<^verbatim>\<open>undefined\<close>, or, for a key the literal does not
  have but \<^verbatim>\<open>Object.prototype\<close> has, the inherited function or object.
\<close>

datatype js_property = Undefined | Number int | Inherited

text \<open>The own property names of \<^verbatim>\<open>Object.prototype\<close>, which every object literal inherits.\<close>

definition OBJECT_PROTOTYPE_KEYS :: "string list" where
  "OBJECT_PROTOTYPE_KEYS =
     [''constructor'', ''__defineGetter__'', ''__defineSetter__'', ''hasOwnProperty'',
      ''__lookupGetter__'', ''__lookupSetter__'', ''isPrototypeOf'',
      ''propertyIsEnumerable'', ''toString'', ''valueOf'', ''__proto__'',
      ''toLocaleString'']"

definition get_property :: "(string \<times> int) list \<Rightarrow> string \<Rightarrow> js_property" where
  "get_property obj key =
     (case map_of obj key of
        Some w \<Rightarrow> Number w
      | None \<Rightarrow> if key \<in> set OBJECT_PROTOTYPE_KEYS then Inherited else Undefined)"

text \<open>\<^verbatim>\<open>v || 0\<close>: a falsy \<open>v\<close> (\<^verbatim>\<open>undefined\<close>, \<open>0\<close>) gives \<open>0\<close>, a truthy one is kept.\<close>

fun or_zero :: "js_property \<Rightarrow> js_property" where
  "or_zero Undefined = Number 0"
| "or_zero (Number w) = Number w"
| "or_zero Inherited = Inherited"

text \<open>\<^verbatim>\<open>ToNumber\<close>, applied by \<^verbatim>\<open>Math.max\<close> to its arguments: a function or a plain
  object converts to \<^verbatim>\<open>NaN\<close>.\<close>

fun ToNumber :: "js_property \<Rightarrow> js_number" where
  "ToNumber (Number w) = Num w"
| "ToNumber Undefined = NaN"
| "ToNumber Inherited = NaN"

subsection \<open>The risk scorer (scorer.ts)\<close>

definition CATEGORY_WEIGHTS :: "(string \<times> int) list" where
  "CATEGORY_WEIGHTS =
     [(''Shell Execution'', 50),
      (''Code Injection'', 50),
      (''File System Write'', 30),
      (''File System Delete'', 30),
      (''File System Permissions'', 25),
      (''Network Access'', 20),
      (''Environment Access'', 10)]"

fun SEVERITY_WEIGHTS :: "RiskSeverity \<Rightarrow> int" where
  "SEVERITY_WEIGHTS Critical = 50"
| "SEVERITY_WEIGHTS High = 30"
| "SEVERITY_WEIGHTS Medium = 15"
| "SEVERITY_WEIGHTS Low = 5"

fun DEPENDENCY_SEVERITY_WEIGHTS :: "RiskSeverity \<Rightarrow> int" where
  "DEPENDENCY_SEVERITY_WEIGHTS Critical = 40"
| "DEPENDENCY_SEVERITY_WEIGHTS High = 25"
| "DEPENDENCY_SEVERITY_WEIGHTS Medium = 15"
| "DEPENDENCY_SEVERITY_WEIGHTS Low = 5"

text \<open>The body of the first loop: \<^verbatim>\<open>score += Math.max(categoryWeight || 0, severityWeight)\<close>.\<close>

definition score_code_finding :: "js_number \<Rightarrow> ('a Finding_scheme) \<Rightarrow> js_number" where
  "score_code_finding score finding =
     (let categoryWeight = get_property CATEGORY_WEIGHTS (f_category finding);
          severityWeight = SEVERITY_WEIGHTS (f_severity finding)
      in js_add score (Math_max (ToNumber (or_zero categoryWeight)) (Num severityWeight)))"

text \<open>The body of the second loop.\<close>

definition score_dependency_finding :: "js_number \<Rightarrow> ('a DependencyFinding_scheme) \<Rightarrow> js_number" where
  "score_dependency_finding score finding =
     js_add score (Num (DEPENDENCY_SEVERITY_WEIGHTS (d_severity finding)))"

definition calculateRiskScore ::
  "('a Finding_scheme) list \<Rightarrow> ('b DependencyFinding_scheme) list \<Rightarrow> js_number" where
  "calculateRiskScore codeFindings dependencyFindings =
     (let score = Num 0;
          score = foldl score_code_finding score codeFindings;
          score = foldl score_dependency_finding score dependencyFindings
      in Math_min score (Num 100))"

definition getRiskLevel :: "js_number \<Rightarrow> RiskLevel" where
  "getRiskLevel score =
     (if js_strict_eq score (Num 0) then SafeLevel
      else if js_le score (Num 20) then LowLevel
      else if js_le score (Num 50) then MediumLevel
      else if js_le score (Num 75) then HighLevel
      else CriticalLevel)"

text \<open>
  The scoring rule in the words of the specification: the weight of a category is read
  from the table and is \<open>0\<close> for a category the table does not list; a code finding
  contributes the larger of its category weight and its severity weight, a dependency
  finding its dependency severity weight, and the sum is capped at \<open>100\<close>.
\<close>

fun categoryWeight :: "string \<Rightarrow> int" where
  "categoryWeight c =
     (if c = ''Shell Execution'' then 50
      else if c = ''Code Injection'' then 50
      else if c = ''File System Write'' then 30
      else if c = ''File System Delete'' then 30
      else if c = ''File System Permissions'' then 25
      else if c = ''Network Access'' then 20
      else if c = ''Environment Access'' then 10
      else 0)"

definition code_contribution :: "('a Finding_scheme) \<Rightarrow> int" where
  "code_contribution f = max (categoryWeight (f_category f)) (SEVERITY_WEIGHTS (f_severity f))"

definition dependency_contribution :: "('a DependencyFinding_scheme) \<Rightarrow> int" where
  "dependency_contribution d = DEPENDENCY_SEVERITY_WEIGHTS (d_severity d)"

definition raw_score :: "('a Finding_scheme) list \<Rightarrow> ('b DependencyFinding_scheme) list \<Rightarrow> int" where
  "raw_score cs ds = sum_list (map code_contribution cs) + sum_list (map dependency_contribution ds)"

definition spec_score :: "('a Finding_scheme) list \<Rightarrow> ('b DependencyFinding_scheme) list \<Rightarrow> int" where
  "spec_score cs ds = min 100 (raw_score cs ds)"

text \<open>The order of the risk levels: safe, low, medium, high, critical.\<close>

fun level_rank :: "RiskLevel \<Rightarrow> nat" where
  "level_rank SafeLevel = 0"
| "level_rank LowLevel = 1"
| "level_rank MediumLevel = 2"
| "level_rank HighLevel = 3"
| "level_rank CriticalLevel = 4"

text \<open>A category that names a property an object literal inherits.\<close>

definition inherited_key :: "string \<Rightarrow> bool" where
  "inherited_key c = (c \<in> set OBJECT_PROTOTYPE_KEYS)"

subsection \<open>Strings\<close>

text \<open>\<^verbatim>\<open>String.prototype.toLowerCase\<close> on ASCII text: the letters A to Z are lowered.\<close>

definition lower_char :: "char \<Rightarrow> char" where
  "lower_char c =
     (case map_of (zip ''ABCDEFGHIJKLMNOPQRSTUVWXYZ'' ''abcdefghijklmnopqrstuvwxyz'') c of
        Some l \<Rightarrow> l
      | None \<Rightarrow> c)"

definition toLowerCase :: "string \<Rightarrow> string" where
  "toLowerCase s = map lower_char s"

text \<open>\<^verbatim>\<open>s.startsWith(p)\<close> and \<^verbatim>\<open>s.includes(p)\<close>.\<close>

definition startsWith :: "string \<Rightarrow> string \<Rightarrow> bool" where
  "startsWith p s = (take (length p) s = p)"

fun str_includes :: "string \<Rightarrow> string \<Rightarrow> bool" where
  "str_includes p [] = (p = [])"
| "str_includes p (c # cs) = (startsWith p (c # cs) \<or> str_includes p cs)"

text \<open>JavaScript truthiness of a string: the empty string is falsy.\<close>

definition truthy :: "string \<Rightarrow> bool" where
  "truthy s = (s \<noteq> [])"

subsection \<open>Severity normalisation (vulnerabilities.ts)\<close>

text \<open>
  \<^verbatim>\<open>mapNpmSeverity\<close>: a \<^verbatim>\<open>switch\<close> on the lower-cased string, with the cases
  \<^verbatim>\<open>moderate\<close>/\<^verbatim>\<open>medium\<close> and \<^verbatim>\<open>low\<close>/\<^verbatim>\<open>info\<close> falling through to one
  \<^verbatim>\<open>return\<close>, and a \<^verbatim>\<open>default\<close>.
\<close>

definition mapNpmSeverity :: "string \<Rightarrow> RiskSeverity" where
  "mapNpmSeverity severity =
     (let l = toLowerCase severity in
      if l = ''critical'' then Critical
      else if l = ''high'' then High
      else if l = ''moderate'' \<or> l = ''medium'' then Medium
      else if l = ''low'' \<or> l = ''info'' then Low
      else Medium)"

text \<open>
  A CVSS score is a JavaScript number: a finite value, an infinity or \<^verbatim>\<open>NaN\<close>. The
  thresholds \<open>9.0\<close>, \<open>7.0\<close> and \<open>4.0\<close> are exact doubles and the comparison of
  doubles is exact, so a finite score is the real number it denotes.
\<close>

datatype cvss_number = Finite real | PosInfinity | NegInfinity | NotANumber

fun js_ge :: "cvss_number \<Rightarrow> real \<Rightarrow> bool" where
  "js_ge (Finite x) c = (c \<le> x)"
| "js_ge PosInfinity c = True"
| "js_ge NegInfinity c = False"
| "js_ge NotANumber c = False"

definition mapCvssToSeverity :: "cvss_number \<Rightarrow> RiskSeverity" where
  "mapCvssToSeverity score =
     (if js_ge score 9.0 then Critical
      else if js_ge score 7.0 then High
      else if js_ge score 4.0 then Medium
      else Low)"

subsection \<open>Merging the audit and the database findings (vulnerabilities.ts)\<close>

text \<open>\<^verbatim>\<open>finding.cveId || finding.reason\<close>: an absent or empty \<^verbatim>\<open>cveId\<close> is falsy.\<close>

definition cveId_or_reason :: "('a DependencyFinding_scheme) \<Rightarrow> string" where
  "cveId_or_reason finding =
     (case d_cveId finding of
        Some c \<Rightarrow> if truthy c then c else d_reason finding
      | None \<Rightarrow> d_reason finding)"

text \<open>The key of \<^verbatim>\<open>scanVulnerabilities\<close>: \<^verbatim>\<open>`${finding.name}:${finding.cveId || finding.reason}`\<close>.\<close>

definition merge_key :: "('a DependencyFinding_scheme) \<Rightarrow> string" where
  "merge_key finding = d_name finding @ '':'' @ cveId_or_reason finding"

text \<open>
  A JavaScript \<^verbatim>\<open>Map\<close> is an association list in insertion order: \<^verbatim>\<open>set\<close> on a key
  that is present replaces the value where it stands, on a new key appends the entry
  (\<^const>\<open>AList.update\<close>); \<^verbatim>\<open>values()\<close> lists the values in that order.
\<close>

definition Map_set :: "('a DependencyFinding_scheme \<Rightarrow> string) \<Rightarrow>
    (string \<times> 'a DependencyFinding_scheme) list \<Rightarrow> 'a DependencyFinding_scheme \<Rightarrow>
    (string \<times> 'a DependencyFinding_scheme) list" where
  "Map_set key findingMap finding = AList.update (key finding) finding findingMap"

text \<open>
  \<^verbatim>\<open>scanVulnerabilities\<close>, from the two awaited results on: the findings of
  \<^verbatim>\<open>runNpmAudit\<close> and those of \<^verbatim>\<open>scanWithOsv\<close> are its inputs here.
\<close>

definition scanVulnerabilities ::
  "('a DependencyFinding_scheme) list \<Rightarrow> ('a DependencyFinding_scheme) list \<Rightarrow>
   ('a DependencyFinding_scheme) list" where
  "scanVulnerabilities npmFindings osvFindings =
     (let findingMap = [];
          findingMap = foldl (Map_set merge_key) findingMap osvFindings;
          findingMap = foldl (Map_set merge_key) findingMap npmFindings
      in map snd findingMap)"

subsection \<open>The dependency inspector (dependencies.ts)\<close>

record ThreatEntry =
  t_name :: string
  t_reason :: string
  t_severity :: RiskSeverity

definition THREAT_DATABASE :: "ThreatEntry list" where
  "THREAT_DATABASE =
     [\<lparr>t_name = ''evil-package'',
       t_reason = ''Known malicious package - contains cryptocurrency miner'',
       t_severity = Critical\<rparr>,
      \<lparr>t_name = ''crypto-miner'', t_reason = ''Cryptocurrency mining malware'',
       t_severity = Critical\<rparr>,
      \<lparr>t_name = ''flatmap-stream'',
       t_reason = ''Compromised package - event-stream incident'',
       t_severity = Critical\<rparr>,
      \<lparr>t_name = ''event-stream'', t_reason = ''Compromised package version (historical)'',
       t_severity = High\<rparr>,
      \<lparr>t_name = ''ua-parser-js'', t_reason = ''Previously compromised - check version'',
       t_severity = High\<rparr>,
      \<lparr>t_name = ''coa'', t_reason = ''Previously compromised - check version'',
       t_severity = High\<rparr>,
      \<lparr>t_name = ''rc'', t_reason = ''Previously compromised - check version'',
       t_severity = High\<rparr>,
      \<lparr>t_name = ''crossenv'',
       t_reason = ''Typosquatting of cross-env - malicious package'',
       t_severity = Critical\<rparr>,
      \<lparr>t_name = ''cross-env.js'',
       t_reason = ''Typosquatting of cross-env - malicious package'',
       t_severity = Critical\<rparr>,
      \<lparr>t_name = ''mongose'',
       t_reason = ''Typosquatting of mongoose - malicious package'',
       t_severity = Critical\<rparr>,
      \<lparr>t_name = ''lodahs'', t_reason = ''Typosquatting of lodash - malicious package'',
       t_severity = Critical\<rparr>,
      \<lparr>t_name = ''expresss'',
       t_reason = ''Typosquatting of express - malicious package'',
       t_severity = Critical\<rparr>,
      \<lparr>t_name = ''hack-tool'', t_reason = ''Potentially malicious hacking tool'',
       t_severity = High\<rparr>,
      \<lparr>t_name = ''password-stealer'',
       t_reason = ''Suspicious package name - potential credential theft'',
       t_severity = Critical\<rparr>,
      \<lparr>t_name = ''keylogger'',
       t_reason = ''Suspicious package name - potential keylogging'',
       t_severity = Critical\<rparr>,
      \<lparr>t_name = ''backdoor'',
       t_reason = ''Suspicious package name - potential backdoor'',
       t_severity = Critical\<rparr>,
      \<lparr>t_name = ''request'',
       t_reason = ''Deprecated package - consider using node-fetch or axios'',
       t_severity = Low\<rparr>,
      \<lparr>t_name = ''node-uuid'', t_reason = ''Deprecated - use uuid package instead'',
       t_severity = Low\<rparr>]"

text \<open>
  The regular expressions of \<^verbatim>\<open>SUSPICIOUS_PATTERNS\<close>, each as the test it performs.
  With the flag \<^verbatim>\<open>i\<close> an ASCII letter of the pattern matches both of its cases, so
  the literal is searched in the lower-cased name. In \<^verbatim>\<open>logger.*key\<close> the dot does
  not match a line terminator: \<^verbatim>\<open>key\<close> has to follow \<^verbatim>\<open>logger\<close> on the same line.
\<close>

definition lineTerminator :: "char \<Rightarrow> bool" where
  "lineTerminator c = (c = CHR 0x0A \<or> c = CHR 0x0D)"

fun logger_then_key :: "string \<Rightarrow> bool" where
  "logger_then_key [] = False"
| "logger_then_key (c # cs) =
     ((startsWith ''logger'' (c # cs) \<and>
       str_includes ''key'' (takeWhile (\<lambda>x. \<not> lineTerminator x) (drop 6 (c # cs))))
      \<or> logger_then_key cs)"

datatype SuspiciousRegExp = NpmPrefix | Stealer | Keylog | Backdoor | Miner

fun regexp_test :: "SuspiciousRegExp \<Rightarrow> string \<Rightarrow> bool" where
  "regexp_test NpmPrefix s = startsWith ''npm-'' s"
| "regexp_test Stealer s =
     (str_includes ''stealer'' (toLowerCase s) \<or> str_includes ''steal'' (toLowerCase s))"
| "regexp_test Keylog s =
     (str_includes ''keylog'' (toLowerCase s) \<or> logger_then_key (toLowerCase s))"
| "regexp_test Backdoor s =
     (str_includes ''backdoor'' (toLowerCase s) \<or> str_includes ''rootkit'' (toLowerCase s)
      \<or> str_includes ''trojan'' (toLowerCase s))"
| "regexp_test Miner s =
     (str_includes ''miner'' (toLowerCase s) \<or> str_includes ''mining'' (toLowerCase s)
      \<or> str_includes ''coin'' (toLowerCase s))"

definition SUSPICIOUS_PATTERNS :: "(SuspiciousRegExp \<times> string \<times> RiskSeverity) list" where
  "SUSPICIOUS_PATTERNS =
     [(NpmPrefix, ''Suspicious package prefix - potential typosquatting'', Medium),
      (Stealer, ''Suspicious name - potential data theft'', High),
      (Keylog, ''Suspicious name - potential keylogging'', High),
      (Backdoor, ''Suspicious name - potential malware'', Critical),
      (Miner, ''Suspicious name - potential cryptominer'', Medium)]"

text \<open>
  \<^verbatim>\<open>PackageJson\<close>: each dependency section, when present, is the list of its entries
  (name, version range) in the order \<^verbatim>\<open>Object.keys\<close> and \<^verbatim>\<open>Object.entries\<close>
  enumerate them.
\<close>

record PackageJson =
  p_dependencies :: "(string \<times> string) list option"
  p_devDependencies :: "(string \<times> string) list option"
  p_peerDependencies :: "(string \<times> string) list option"
  p_optionalDependencies :: "(string \<times> string) list option"

text \<open>\<^verbatim>\<open>Set.prototype.add\<close>, the set kept as the list of its elements in insertion order.\<close>

definition Set_add :: "'a list \<Rightarrow> 'a \<Rightarrow> 'a list" where
  "Set_add s x = (if x \<in> set s then s else s @ [x])"

definition addDeps :: "string list \<Rightarrow> (string \<times> string) list option \<Rightarrow> string list" where
  "addDeps deps depObj =
     (case depObj of None \<Rightarrow> deps | Some obj \<Rightarrow> foldl Set_add deps (map fst obj))"

definition getAllDependencies :: "PackageJson \<Rightarrow> string list" where
  "getAllDependencies packageJson =
     (let deps = [];
          deps = addDeps deps (p_dependencies packageJson);
          deps = addDeps deps (p_devDependencies packageJson);
          deps = addDeps deps (p_peerDependencies packageJson);
          deps = addDeps deps (p_optionalDependencies packageJson)
      in deps)"

definition new_finding :: "string \<Rightarrow> RiskSeverity \<Rightarrow> string \<Rightarrow> Source \<Rightarrow> DependencyFinding" where
  "new_finding name severity reason source =
     \<lparr>d_name = name, d_severity = severity, d_reason = reason, d_version = None,
      d_vulnerableVersions = None, d_cveId = None, d_cvssScore = None,
      d_source = Some source, d_fixAvailable = None, d_url = None\<rparr>"

definition checkDependency :: "string \<Rightarrow> DependencyFinding option" where
  "checkDependency depName =
     (case find (\<lambda>t. toLowerCase (t_name t) = toLowerCase depName) THREAT_DATABASE of
        Some threat \<Rightarrow> Some (new_finding depName (t_severity threat) (t_reason threat) ThreatDb)
      | None \<Rightarrow>
          (case find (\<lambda>(pattern, reason, severity). regexp_test pattern depName)
                  SUSPICIOUS_PATTERNS of
             Some (pattern, reason, severity) \<Rightarrow> Some (new_finding depName severity reason Pattern)
           | None \<Rightarrow> None))"

fun severityOrder :: "RiskSeverity \<Rightarrow> nat" where
  "severityOrder Critical = 0"
| "severityOrder High = 1"
| "severityOrder Medium = 2"
| "severityOrder Low = 3"

text \<open>\<^verbatim>\<open>Array.prototype.sort\<close> is stable; so is the insertion sort \<^const>\<open>sort_key\<close>.\<close>

definition sortFindings :: "DependencyFinding list \<Rightarrow> DependencyFinding list" where
  "sortFindings findings = sort_key (\<lambda>a. severityOrder (d_severity a)) findings"

text \<open>
  The key of \<^verbatim>\<open>inspectDependenciesAsync\<close>:
  \<^verbatim>\<open>`${vuln.name.toLowerCase()}:${vuln.cveId || vuln.reason}`\<close>.
\<close>

definition identity_key :: "('a DependencyFinding_scheme) \<Rightarrow> string" where
  "identity_key vuln = toLowerCase (d_name vuln) @ '':'' @ cveId_or_reason vuln"

text \<open>The body of the loop over the vulnerabilities; the state is the array \<^verbatim>\<open>findings\<close>
  and the set \<^verbatim>\<open>existingKeys\<close>.\<close>

definition add_vulnerability ::
  "DependencyFinding list \<times> string list \<Rightarrow> DependencyFinding \<Rightarrow>
   DependencyFinding list \<times> string list" where
  "add_vulnerability st vuln =
     (let findings = fst st; existingKeys = snd st; key = identity_key vuln in
      if key \<notin> set existingKeys then (findings @ [vuln], Set_add existingKeys key)
      else (findings, existingKeys))"

text \<open>
  \<^verbatim>\<open>inspectDependencies\<close> and \<^verbatim>\<open>inspectDependenciesAsync\<close>. The first argument is
  what \<^verbatim>\<open>readPackageJson\<close> returns (\<^verbatim>\<open>null\<close> for a missing or unparsable manifest);
  the second is the outcome of \<^verbatim>\<open>await scanVulnerabilities(targetDir)\<close>, a thrown
  exception (\<open>Inl\<close>) or the list it resolves to. The set \<^verbatim>\<open>existingKeys\<close> starts from
  the lower-cased names of the threat findings.
\<close>

definition inspectDependencies :: "PackageJson option \<Rightarrow> DependencyFinding list" where
  "inspectDependencies packageJson =
     (case packageJson of
        None \<Rightarrow> []
      | Some pj \<Rightarrow> sortFindings (List.map_filter checkDependency (getAllDependencies pj)))"

definition inspectDependenciesAsync ::
  "PackageJson option \<Rightarrow> 'e + DependencyFinding list \<Rightarrow> DependencyFinding list" where
  "inspectDependenciesAsync packageJson scanned =
     (case packageJson of
        None \<Rightarrow> []
      | Some pj \<Rightarrow>
          (let dependencies = getAllDependencies pj;
               findings = List.map_filter checkDependency dependencies;
               findings =
                 (case scanned of
                    Inl err \<Rightarrow> findings
                  | Inr vulnerabilities \<Rightarrow>
                      (let existingKeys =
                             foldl Set_add [] (map (\<lambda>f. toLowerCase (d_name f)) findings)
                       in fst (foldl add_vulnerability (findings, existingKeys)
                                 vulnerabilities)))
           in sortFindings findings))"

subsection \<open>Reading the manifest and the lock file (vulnerabilities.ts)\<close>

text \<open>An element of the arrays \<^verbatim>\<open>parsePackageJson\<close> and \<^verbatim>\<open>parseLockFile\<close> return.\<close>

record PackageRef =
  r_name :: string
  r_version :: string
  r_isDev :: bool

text \<open>
  What reading a JSON file gives: the file does not exist (\<^verbatim>\<open>fs.existsSync\<close> is
  false), reading or \<^verbatim>\<open>JSON.parse\<close> throws, or the parsed content.
\<close>

datatype 'a json_file = Missing | Unparsable | Parsed 'a

text \<open>
  \<^verbatim>\<open>versionRange.replace(/^[\^~>=<]*/g, '').split(' ')[0]\<close>: the anchored pattern
  matches once, the longest run of operator characters at the start of the string;
  element \<open>0\<close> of the split is the text before the first space.
\<close>

definition rangeOperator :: "char \<Rightarrow> bool" where
  "rangeOperator c = (c \<in> set ''^~>=<'')"

text \<open>\<^verbatim>\<open>s.split(sep)\<close> for a separator of one character: never the empty array.\<close>

fun split_char :: "char \<Rightarrow> string \<Rightarrow> string list" where
  "split_char sep [] = [Nil]"
| "split_char sep (c # cs) =
     (if c = sep then [] # split_char sep cs
      else (case split_char sep cs of
              t # ts \<Rightarrow> (c # t) # ts
            | [] \<Rightarrow> [c # Nil]))"

definition cleanVersion :: "string \<Rightarrow> string" where
  "cleanVersion versionRange =
     hd (split_char (CHR '' '') (dropWhile rangeOperator versionRange))"

text \<open>The inner function \<^verbatim>\<open>extractDeps\<close> of \<^verbatim>\<open>parsePackageJson\<close>; it pushes onto
  \<^verbatim>\<open>packages\<close>.\<close>

definition push_dep :: "bool \<Rightarrow> PackageRef list \<Rightarrow> string \<times> string \<Rightarrow> PackageRef list" where
  "push_dep isDev packages entry =
     (case entry of (name, versionRange) \<Rightarrow>
        packages @ [\<lparr>r_name = name, r_version = cleanVersion versionRange, r_isDev = isDev\<rparr>])"

definition extractManifestDeps ::
  "PackageRef list \<Rightarrow> (string \<times> string) list option \<Rightarrow> bool \<Rightarrow> PackageRef list" where
  "extractManifestDeps packages deps isDev =
     (case deps of None \<Rightarrow> packages | Some obj \<Rightarrow> foldl (push_dep isDev) packages obj)"

definition parsePackageJson :: "PackageJson json_file \<Rightarrow> PackageRef list" where
  "parsePackageJson file =
     (case file of
        Missing \<Rightarrow> []
      | Unparsable \<Rightarrow> []
      | Parsed pkgJson \<Rightarrow>
          (let packages = [];
               packages = extractManifestDeps packages (p_dependencies pkgJson) False;
               packages = extractManifestDeps packages (p_devDependencies pkgJson) True;
               packages = extractManifestDeps packages (p_peerDependencies pkgJson) False;
               packages = extractManifestDeps packages (p_optionalDependencies pkgJson) False
           in packages))"

text \<open>
  An entry of the nested (lockfileVersion 1) dependency map: \<^verbatim>\<open>version\<close>, the optional
  \<^verbatim>\<open>dev\<close> and the nested map \<^verbatim>\<open>dependencies\<close>, as the list of its entries. An absent
  nested map and an empty one behave alike (nothing is visited), so absence is the empty
  list. An absent \<^verbatim>\<open>version\<close> is \<open>None\<close>.
\<close>

datatype LockDependency =
  LockDependency (l_version: "string option") (l_dev: "bool option")
    (l_dependencies: "(string \<times> LockDependency) list")

text \<open>An entry of the flat (lockfileVersion 2 and later) map \<^verbatim>\<open>packages\<close>.\<close>

record LockPackage =
  k_version :: "string option"
  k_dev :: "bool option"

record LockData =
  ld_packages :: "(string \<times> LockPackage) list option"
  ld_dependencies :: "(string \<times> LockDependency) list option"

text \<open>\<^verbatim>\<open>info.version\<close> used as a condition, and \<^verbatim>\<open>info.dev || isDev\<close>.\<close>

definition truthy_opt :: "string option \<Rightarrow> bool" where
  "truthy_opt v = (case v of None \<Rightarrow> False | Some s \<Rightarrow> truthy s)"

definition dev_or :: "bool option \<Rightarrow> bool \<Rightarrow> bool" where
  "dev_or dev isDev = (case dev of None \<Rightarrow> isDev | Some b \<Rightarrow> b \<or> isDev)"

text \<open>
  The recursive inner function \<^verbatim>\<open>extractDeps\<close> of \<^verbatim>\<open>parseLockFile\<close>. Every push
  appends to the one array \<^verbatim>\<open>packages\<close>, so a call is modelled by the list of the
  elements it pushes, in order: the entry itself, then its nested map, then the rest of
  the map.
\<close>

function extractDeps :: "(string \<times> LockDependency) list \<Rightarrow> bool \<Rightarrow> PackageRef list" where
  "extractDeps [] isDev = []"
| "extractDeps ((name, info) # deps) isDev =
     (if truthy_opt (l_version info)
      then [\<lparr>r_name = name, r_version = the (l_version info),
             r_isDev = dev_or (l_dev info) isDev\<rparr>]
      else [])
     @ extractDeps (l_dependencies info) (dev_or (l_dev info) isDev)
     @ extractDeps deps isDev"
  by pat_completeness auto
termination
proof (relation "measure (\<lambda>(deps, isDev). size_list (size_prod (\<lambda>_. 0) size) deps)")
  fix name :: string and info deps and isDev :: bool
  have "size_list (size_prod (\<lambda>_. 0) size) (l_dependencies info) < size info"
    by (cases info) simp
  then show "((l_dependencies info, dev_or (l_dev info) isDev), (name, info) # deps, isDev)
      \<in> measure (\<lambda>(deps, isDev). size_list (size_prod (\<lambda>_. 0) size) deps)"
    by simp
qed simp_all

text \<open>
  The name of a flat entry:
  \<^verbatim>\<open>pkgPath.replace(/^node_modules\//, '').replace(/.*node_modules\//, '')\<close>. The second
  pattern matches on the first line that contains \<^verbatim>\<open>node_modules/\<close> (the dot does not
  cross a line terminator), from the start of that line through the last occurrence on
  it.
\<close>

definition replace_prefix :: "string \<Rightarrow> string \<Rightarrow> string" where
  "replace_prefix p s = (if startsWith p s then drop (length p) s else s)"

fun after_last :: "string \<Rightarrow> string \<Rightarrow> string option" where
  "after_last p [] = None"
| "after_last p (c # cs) =
     (case after_last p cs of
        Some r \<Rightarrow> Some r
      | None \<Rightarrow> if startsWith p (c # cs) then Some (drop (length p) (c # cs)) else None)"

function replace_through_last :: "string \<Rightarrow> string \<Rightarrow> string" where
  "replace_through_last p s =
     (let line = takeWhile (\<lambda>c. \<not> lineTerminator c) s;
          rest = dropWhile (\<lambda>c. \<not> lineTerminator c) s
      in case after_last p line of
           Some r \<Rightarrow> r @ rest
         | None \<Rightarrow> (case rest of [] \<Rightarrow> line | t # rest' \<Rightarrow> line @ t # replace_through_last p rest'))"
  by pat_completeness auto
termination
proof (relation "measure (\<lambda>(p, s). length s)")
  fix p :: string and s line rest t rest'
  assume "rest = dropWhile (\<lambda>c. \<not> lineTerminator c) s" and "rest = t # rest'"
  then have "length (t # rest') \<le> length s"
    by (metis length_dropWhile_le)
  then show "((p, rest'), (p, s)) \<in> measure (\<lambda>(p, s). length s)"
    by simp
qed simp

definition nameOfPath :: "string \<Rightarrow> string" where
  "nameOfPath pkgPath =
     replace_through_last ''node_modules/'' (replace_prefix ''node_modules/'' pkgPath)"

text \<open>The body of the loop over the flat map.\<close>

definition push_package :: "PackageRef list \<Rightarrow> string \<times> LockPackage \<Rightarrow> PackageRef list" where
  "push_package packages entry =
     (case entry of (pkgPath, info) \<Rightarrow>
        if pkgPath = [] then packages
        else (let name = nameOfPath pkgPath in
              if truthy_opt (k_version info) \<and> truthy name
              then packages @ [\<lparr>r_name = name, r_version = the (k_version info),
                                 r_isDev = dev_or (k_dev info) False\<rparr>]
              else packages))"

definition parseLockFile :: "LockData json_file \<Rightarrow> PackageRef list" where
  "parseLockFile file =
     (case file of
        Missing \<Rightarrow> []
      | Unparsable \<Rightarrow> []
      | Parsed lockData \<Rightarrow>
          (case ld_packages lockData of
             Some pkgs \<Rightarrow> foldl push_package [] pkgs
           | None \<Rightarrow>
               (case ld_dependencies lockData of
                  Some deps \<Rightarrow> extractDeps deps False
                | None \<Rightarrow> [])))"

text \<open>
  The nodes of a nested dependency map in the order they are visited, each with the
  entries above it (its ancestor chain, nearest first).
\<close>

function nodes :: "(string \<times> LockDependency) list \<Rightarrow> LockDependency list \<Rightarrow>
    (string \<times> LockDependency \<times> LockDependency list) list" where
  "nodes [] ancestors = []"
| "nodes ((name, info) # deps) ancestors =
     (name, info, ancestors) # nodes (l_dependencies info) (info # ancestors)
     @ nodes deps ancestors"
  by pat_completeness auto
termination
proof (relation "measure (\<lambda>(deps, ancestors). size_list (size_prod (\<lambda>_. 0) size) deps)")
  fix name :: string and info deps and ancestors :: "LockDependency list"
  have "size_list (size_prod (\<lambda>_. 0) size) (l_dependencies info) < size info"
    by (cases info) simp
  then show "((l_dependencies info, info # ancestors), (name, info) # deps, ancestors)
      \<in> measure (\<lambda>(deps, ancestors). size_list (size_prod (\<lambda>_. 0) size) deps)"
    by simp
qed simp_all

text \<open>An entry is dev-only when its \<^verbatim>\<open>dev\<close> is \<^verbatim>\<open>true\<close>.\<close>

definition devOnly :: "LockDependency \<Rightarrow> bool" where
  "devOnly info = (l_dev info = Some True)"

definition emitted :: "string \<times> LockDependency \<times> LockDependency list \<Rightarrow> PackageRef" where
  "emitted n =
     (case n of (name, info, ancestors) \<Rightarrow>
        \<lparr>r_name = name, r_version = the (l_version info),
         r_isDev = (devOnly info \<or> list_ex devOnly ancestors)\<rparr>)"

definition versioned :: "string \<times> LockDependency \<times> LockDependency list \<Rightarrow> bool" where
  "versioned n = (case n of (name, info, ancestors) \<Rightarrow> truthy_opt (l_version info))"

subsection \<open>Querying the OSV database (vulnerabilities.ts)\<close>

text \<open>
  What the network does with one request to \<^verbatim>\<open>/v1/query\<close>: \<^verbatim>\<open>fetch\<close> rejects, the
  status is not a success, reading the body as JSON rejects, or the body arrives with its
  optional list \<^verbatim>\<open>vulns\<close>. A vulnerability record is not looked into here, so its type
  is a parameter. The network is a function of the number of individual requests made
  before and of the package asked for.
\<close>

datatype 'v query_response = FetchRejected | StatusNotOk | JsonRejected | Vulns "'v list option"

type_synonym 'v network = "nat \<Rightarrow> string \<Rightarrow> string \<Rightarrow> 'v query_response"

text \<open>\<^verbatim>\<open>queryOsv\<close>: every failure is caught and gives the empty list.\<close>

definition queryOsv :: "'v network \<Rightarrow> nat \<Rightarrow> string \<Rightarrow> string \<Rightarrow> 'v list" where
  "queryOsv net n packageName version =
     (case net n packageName version of
        FetchRejected \<Rightarrow> []
      | StatusNotOk \<Rightarrow> []
      | JsonRejected \<Rightarrow> []
      | Vulns vulns \<Rightarrow> (case vulns of None \<Rightarrow> [] | Some vs \<Rightarrow> vs))"

text \<open>
  The state of \<^verbatim>\<open>batchQueryOsv\<close>: the individual requests issued so far, in order, and
  the map \<^verbatim>\<open>results\<close>.
\<close>

record 'v osv_state =
  q_requests :: "(string \<times> string) list"
  q_results :: "(string \<times> 'v list) list"

text \<open>The key \<^verbatim>\<open>`${pkg.name}@${pkg.version}`\<close>.\<close>

definition pkgKey :: "'a PackageRef_scheme \<Rightarrow> string" where
  "pkgKey pkg = r_name pkg @ ''@'' @ r_version pkg"

text \<open>
  The body of the fallback loops. The loop under \<^verbatim>\<open>!response.ok\<close> and the loop in the
  \<^verbatim>\<open>catch\<close> differ by an inner \<^verbatim>\<open>try\<close> around a call that does not throw, so they
  are one function.
\<close>

definition query_one :: "'v network \<Rightarrow> 'v osv_state \<Rightarrow> 'a PackageRef_scheme \<Rightarrow> 'v osv_state" where
  "query_one net st pkg =
     (let vulns = queryOsv net (length (q_requests st)) (r_name pkg) (r_version pkg);
          st = st\<lparr>q_requests := q_requests st @ [(r_name pkg, r_version pkg)]\<rparr>
      in if length vulns > 0
         then st\<lparr>q_results := AList.update (pkgKey pkg) vulns (q_results st)\<rparr>
         else st)"

definition individual_queries ::
  "'v network \<Rightarrow> 'v osv_state \<Rightarrow> ('a PackageRef_scheme) list \<Rightarrow> 'v osv_state" where
  "individual_queries net st packages = foldl (query_one net) st packages"

text \<open>
  What the network does with the request to \<^verbatim>\<open>/v1/querybatch\<close>; the body has an
  optional list \<^verbatim>\<open>results\<close> of slots, each with an optional \<^verbatim>\<open>vulns\<close>.
\<close>

datatype 'v batch_response =
  BatchRejected | BatchStatusNotOk | BatchJsonRejected | BatchResults "'v list option list option"

text \<open>
  The loop over \<^verbatim>\<open>data.results\<close> from index \<open>i\<close>. When the body has more slots than
  there are packages, \<^verbatim>\<open>packages[i]\<close> is \<^verbatim>\<open>undefined\<close> and reading its name for a
  nonempty slot throws: \<open>Inl\<close> carries the map as it is then.
\<close>

fun process_results ::
  "('a PackageRef_scheme) list \<Rightarrow> nat \<Rightarrow> 'v list option list \<Rightarrow> (string \<times> 'v list) list \<Rightarrow>
   (string \<times> 'v list) list + (string \<times> 'v list) list" where
  "process_results packages i [] results = Inr results"
| "process_results packages i (slot # slots) results =
     (let vulns = (case slot of None \<Rightarrow> [] | Some vs \<Rightarrow> vs) in
      if length vulns > 0
      then (if i < length packages
            then process_results packages (Suc i) slots
                   (AList.update (pkgKey (packages ! i)) vulns results)
            else Inl results)
      else process_results packages (Suc i) slots results)"

definition batchQueryOsv ::
  "'v network \<Rightarrow> 'v batch_response \<Rightarrow> ('a PackageRef_scheme) list \<Rightarrow> 'v osv_state" where
  "batchQueryOsv net response packages =
     (let st = \<lparr>q_requests = [], q_results = []\<rparr> in
      case response of
        BatchRejected \<Rightarrow> individual_queries net st packages
      | BatchStatusNotOk \<Rightarrow> individual_queries net st packages
      | BatchJsonRejected \<Rightarrow> individual_queries net st packages
      | BatchResults None \<Rightarrow> st
      | BatchResults (Some slots) \<Rightarrow>
          (case process_results packages 0 slots (q_results st) of
             Inr results \<Rightarrow> st\<lparr>q_results := results\<rparr>
           | Inl results \<Rightarrow> individual_queries net (st\<lparr>q_results := results\<rparr>) packages))"

subsection \<open>Running the audit command (vulnerabilities.ts)\<close>

datatype exn = ExecError | SyntaxError | TypeError

text \<open>
  The report of \<^verbatim>\<open>npm audit --json\<close>. A field whose absence makes the code throw is an
  option: \<^verbatim>\<open>via\<close> (the code calls \<^verbatim>\<open>vuln.via.find\<close>) and \<^verbatim>\<open>severity\<close> (the code
  calls \<^verbatim>\<open>severity.toLowerCase\<close>). In an advisory, \<open>None\<close> for \<^verbatim>\<open>title\<close> means
  the key is not in the object.
\<close>

record NpmAuditVia =
  v_title :: "string option"
  v_url :: "string option"
  v_cvss :: "string option option"

datatype Via = ViaName string | ViaDetail NpmAuditVia

datatype FixAvailable = FixFlag bool | FixInfo string string bool

record NpmAuditVulnerability =
  a_severity :: "string option"
  a_via :: "Via list option"
  a_range :: "string option"
  a_fixAvailable :: "FixAvailable option"

record NpmAuditResult =
  n_vulnerabilities :: "(string \<times> NpmAuditVulnerability) list option"

text \<open>The match of \<^verbatim>\<open>/CVE-\d{4}-\d+/\<close>: the leftmost one, with the longest run of digits.\<close>

definition digit :: "char \<Rightarrow> bool" where
  "digit c = (c \<in> set ''0123456789'')"

definition cve_at :: "string \<Rightarrow> string option" where
  "cve_at s =
     (if startsWith ''CVE-'' s
      then (let year = take 4 (drop 4 s); rest = drop 8 s in
            if length year = 4 \<and> list_all digit year \<and> startsWith ''-'' rest
               \<and> takeWhile digit (drop 1 rest) \<noteq> []
            then Some (''CVE-'' @ year @ ''-'' @ takeWhile digit (drop 1 rest))
            else None)
      else None)"

fun cve_match :: "string \<Rightarrow> string option" where
  "cve_match [] = None"
| "cve_match (c # cs) =
     (case cve_at (c # cs) of Some m \<Rightarrow> Some m | None \<Rightarrow> cve_match cs)"

text \<open>\<^verbatim>\<open>vuln.via.find((v) => typeof v === 'object' && 'title' in v)\<close>.\<close>

definition viaDetails :: "Via list \<Rightarrow> NpmAuditVia option" where
  "viaDetails via =
     (case find (\<lambda>v. case v of ViaName n \<Rightarrow> False | ViaDetail d \<Rightarrow> v_title d \<noteq> None) via of
        Some (ViaDetail d) \<Rightarrow> Some d
      | _ \<Rightarrow> None)"

definition fixText :: "FixAvailable option \<Rightarrow> string option" where
  "fixText fix =
     (case fix of
        Some (FixInfo name version major) \<Rightarrow> Some (name @ ''@'' @ version)
      | Some (FixFlag True) \<Rightarrow> Some ''Available (run npm audit fix)''
      | _ \<Rightarrow> None)"

text \<open>The body of the loop over \<^verbatim>\<open>auditResult.vulnerabilities\<close>: the finding it
  pushes, or the exception it throws.\<close>

definition audit_finding :: "string \<times> NpmAuditVulnerability \<Rightarrow> exn + DependencyFinding" where
  "audit_finding entry =
     (case entry of (pkgName, vuln) \<Rightarrow>
      case a_via vuln of
        None \<Rightarrow> Inl TypeError
      | Some via \<Rightarrow>
          (let details = viaDetails via;
               reason = (case details of
                           Some d \<Rightarrow> (case v_title d of
                                        Some t \<Rightarrow> if truthy t then t
                                                  else ''Vulnerable package detected''
                                      | None \<Rightarrow> ''Vulnerable package detected'')
                         | None \<Rightarrow> ''Vulnerable package detected'');
               url = (case details of Some d \<Rightarrow> v_url d | None \<Rightarrow> None);
               cvssScore = (case details of
                              Some d \<Rightarrow> (case v_cvss d of Some score \<Rightarrow> score | None \<Rightarrow> None)
                            | None \<Rightarrow> None);
               cveId = (case url of
                          Some u \<Rightarrow> if truthy u \<and> str_includes ''CVE-'' u then cve_match u
                                    else None
                        | None \<Rightarrow> None);
               fixAvailable = fixText (a_fixAvailable vuln)
           in case a_severity vuln of
                None \<Rightarrow> Inl TypeError
              | Some severity \<Rightarrow>
                  Inr \<lparr>d_name = pkgName, d_severity = mapNpmSeverity severity,
                       d_reason = reason, d_version = None,
                       d_vulnerableVersions = a_range vuln, d_cveId = cveId,
                       d_cvssScore = cvssScore, d_source = Some NpmAudit,
                       d_fixAvailable = fixAvailable, d_url = url\<rparr>))"

text \<open>How a block of statements completes: normally, by \<^verbatim>\<open>return\<close>, or by a throw.\<close>

datatype 'r completion = Normal | Return 'r | Throw exn

text \<open>The loop: it stops at the first throw, with the findings pushed before.\<close>

fun push_findings ::
  "DependencyFinding list \<Rightarrow> (string \<times> NpmAuditVulnerability) list \<Rightarrow>
   DependencyFinding list completion \<times> DependencyFinding list" where
  "push_findings findings [] = (Normal, findings)"
| "push_findings findings (entry # rest) =
     (case audit_finding entry of
        Inl x \<Rightarrow> (Throw x, findings)
      | Inr f \<Rightarrow> push_findings (findings @ [f]) rest)"

definition whitespace :: "char \<Rightarrow> bool" where
  "whitespace c = (c \<in> set [CHR 0x09, CHR 0x0A, CHR 0x0B, CHR 0x0C, CHR 0x0D, CHR 0x20])"

definition trim :: "string \<Rightarrow> string" where
  "trim s = rev (dropWhile whitespace (rev (dropWhile whitespace s)))"

text \<open>
  What \<^verbatim>\<open>runNpmAudit\<close> finds outside: which files exist, how the two calls of
  \<^verbatim>\<open>execSync\<close> end (\<open>Inl\<close> is a throw: a missing binary, a timeout, a full buffer),
  and \<^verbatim>\<open>JSON.parse\<close> (\<open>Inl\<close> is a throw; \<open>Inr None\<close> is the value \<^verbatim>\<open>null\<close>, whose
  property \<^verbatim>\<open>vulnerabilities\<close> cannot be read).
\<close>

record AuditEnv =
  e_packageJsonExists :: bool
  e_packageLockExists :: bool
  e_yarnLockExists :: bool
  e_install :: "exn + unit"
  e_audit :: "exn + string"
  e_JSON_parse :: "string \<Rightarrow> exn + NpmAuditResult option"

text \<open>The block of the second \<^verbatim>\<open>try\<close>, with the array \<^verbatim>\<open>findings\<close> as its state.\<close>

definition audit_block ::
  "AuditEnv \<Rightarrow> DependencyFinding list \<Rightarrow>
   DependencyFinding list completion \<times> DependencyFinding list" where
  "audit_block env findings =
     (case e_audit env of
        Inl x \<Rightarrow> (Throw x, findings)
      | Inr result \<Rightarrow>
          if \<not> truthy result \<or> trim result = [] then (Return findings, findings)
          else (case e_JSON_parse env result of
                  Inl x \<Rightarrow> (Throw x, findings)
                | Inr None \<Rightarrow> (Throw TypeError, findings)
                | Inr (Some auditResult) \<Rightarrow>
                    (case n_vulnerabilities auditResult of
                       None \<Rightarrow> (Normal, findings)
                     | Some vulnerabilities \<Rightarrow> push_findings findings vulnerabilities)))"

text \<open>The first \<^verbatim>\<open>try\<close>: its \<^verbatim>\<open>catch\<close> returns the findings.\<close>

definition lock_block ::
  "AuditEnv \<Rightarrow> DependencyFinding list \<Rightarrow> DependencyFinding list completion" where
  "lock_block env findings =
     (let hasLockFile = (e_packageLockExists env \<or> e_yarnLockExists env) in
      if \<not> hasLockFile
      then (case e_install env of Inl x \<Rightarrow> Return findings | Inr u \<Rightarrow> Normal)
      else Normal)"

text \<open>
  \<^verbatim>\<open>runNpmAudit\<close>: \<open>Inl\<close> is an exception that leaves the function (a rejected
  promise), \<open>Inr\<close> the list it resolves to. The \<^verbatim>\<open>catch\<close> of the second \<^verbatim>\<open>try\<close> is
  empty, and the function returns \<^verbatim>\<open>findings\<close> after it.
\<close>

definition runNpmAudit :: "AuditEnv \<Rightarrow> exn + DependencyFinding list" where
  "runNpmAudit env =
     (let findings = [] in
      if \<not> e_packageJsonExists env then Inr findings
      else (case lock_block env findings of
              Return r \<Rightarrow> Inr r
            | Throw x \<Rightarrow> Inl x
            | Normal \<Rightarrow>
                (case audit_block env findings of
                   (Return r, findings) \<Rightarrow> Inr r
                 | (Throw x, findings) \<Rightarrow> Inr findings
                 | (Normal, findings) \<Rightarrow> Inr findings)))"

text \<open>The entries of an optional section of the manifest.\<close>

definition entries :: "'a list option \<Rightarrow> 'a list" where
  "entries section = (case section of None \<Rightarrow> [] | Some obj \<Rightarrow> obj)"

text \<open>Entries of a \<^verbatim>\<open>Map\<close> stored under the key of their value, each key once.\<close>

definition keyed :: "('v \<Rightarrow> string) \<Rightarrow> (string \<times> 'v) list \<Rightarrow> bool" where
  "keyed key m = (distinct (map fst m) \<and> (\<forall>(k, v) \<in> set m. key v = k))"

text \<open>The cleaning of a version range in the words of the specification: the leading
  range-operator characters are stripped and the first space-delimited token is kept.\<close>

definition stripped :: "string \<Rightarrow> string" where
  "stripped versionRange =
     dropWhile (\<lambda>c. c \<in> {CHR ''^'', CHR ''~'', CHR ''>'', CHR ''='', CHR ''<''}) versionRange"

definition first_token :: "string \<Rightarrow> string" where
  "first_token s = takeWhile (\<lambda>c. c \<noteq> CHR '' '') s"

definition package_ref :: "bool \<Rightarrow> string \<times> string \<Rightarrow> PackageRef" where
  "package_ref isDev entry =
     (case entry of (name, versionRange) \<Rightarrow>
        \<lparr>r_name = name, r_version = first_token (stripped versionRange), r_isDev = isDev\<rparr>)"

subsection \<open>Concrete inputs\<close>






text \<open>A manifest that declares the typosquat \<^verbatim>\<open>lodahs\<close>, and an audit finding for the
  same package with no CVE id and the reason of the threat table.\<close>

definition lodahs_manifest :: PackageJson where
  "lodahs_manifest =
     \<lparr>p_dependencies = Some [(''lodahs'', ''^1.0.0'')], p_devDependencies = None,
      p_peerDependencies = None, p_optionalDependencies = None\<rparr>"

definition lodahs_audit_finding :: DependencyFinding where
  "lodahs_audit_finding =
     \<lparr>d_name = ''lodahs'', d_severity = Critical,
      d_reason = ''Typosquatting of lodash - malicious package'', d_version = None,
      d_vulnerableVersions = Some ''*'', d_cveId = None, d_cvssScore = None,
      d_source = Some NpmAudit, d_fixAvailable = None,
      d_url = Some ''https://github.com/advisories/GHSA-0000-0000-0000''\<rparr>"

text \<open>An audit finding and a database finding for one advisory of \<^verbatim>\<open>lodash\<close>.\<close>

definition lodash_audit_finding :: DependencyFinding where
  "lodash_audit_finding =
     \<lparr>d_name = ''lodash'', d_severity = High,
      d_reason = ''Prototype Pollution in lodash'', d_version = None,
      d_vulnerableVersions = Some ''<4.17.12'', d_cveId = Some ''CVE-2019-10744'',
      d_cvssScore = Some ''9.1'', d_source = Some NpmAudit,
      d_fixAvailable = Some ''Available (run npm audit fix)'',
      d_url = Some ''https://nvd.nist.gov/vuln/detail/CVE-2019-10744''\<rparr>"

definition lodash_osv_finding :: DependencyFinding where
  "lodash_osv_finding =
     \<lparr>d_name = ''lodash'', d_severity = Critical,
      d_reason = ''Prototype Pollution in lodash'', d_version = Some ''4.17.11'',
      d_vulnerableVersions = Some ''>=0 <4.17.12'', d_cveId = Some ''CVE-2019-10744'',
      d_cvssScore = Some ''9.1'', d_source = Some Osv, d_fixAvailable = None,
      d_url = Some ''https://github.com/advisories/GHSA-jf85-cpcp-j695''\<rparr>"

text \<open>A nested lock file: the dev-only \<^verbatim>\<open>jest\<close> with a dependency \<^verbatim>\<open>chalk\<close> that
  carries no flag of its own.\<close>

definition chalk_entry :: LockDependency where
  "chalk_entry = LockDependency (Some ''4.1.2'') None []"

definition jest_entry :: LockDependency where
  "jest_entry = LockDependency (Some ''29.7.0'') (Some True) [(''chalk'', chalk_entry)]"

definition nested_lock :: LockData where
  "nested_lock = \<lparr>ld_packages = None, ld_dependencies = Some [(''jest'', jest_entry)]\<rparr>"

text \<open>Three packages and a network that answers the first and the third individual
  request and rejects the second.\<close>

definition three_packages :: "PackageRef list" where
  "three_packages =
     [\<lparr>r_name = ''alpha'', r_version = ''1.0.0'', r_isDev = False\<rparr>,
      \<lparr>r_name = ''beta'', r_version = ''2.0.0'', r_isDev = False\<rparr>,
      \<lparr>r_name = ''gamma'', r_version = ''3.0.0'', r_isDev = True\<rparr>]"

definition flaky_network :: "string network" where
  "flaky_network n packageName version =
     (if n = 0 then Vulns (Some [''GHSA-alpha''])
      else if n = 1 then FetchRejected
      else Vulns (Some [''GHSA-gamma'']))"

text \<open>A directory without a manifest, one where no lock file can be made, one whose audit
  command fails, and one whose audit command prints text that is not JSON.\<close>

definition no_manifest_env :: AuditEnv where
  "no_manifest_env =
     \<lparr>e_packageJsonExists = False, e_packageLockExists = False, e_yarnLockExists = False,
      e_install = Inl ExecError, e_audit = Inl ExecError,
      e_JSON_parse = (\<lambda>text. Inl SyntaxError)\<rparr>"

definition install_fails_env :: AuditEnv where
  "install_fails_env =
     \<lparr>e_packageJsonExists = True, e_packageLockExists = False, e_yarnLockExists = False,
      e_install = Inl ExecError, e_audit = Inr ''{}'',
      e_JSON_parse = (\<lambda>text. Inr (Some \<lparr>n_vulnerabilities = None\<rparr>))\<rparr>"

definition audit_fails_env :: AuditEnv where
  "audit_fails_env =
     \<lparr>e_packageJsonExists = True, e_packageLockExists = False, e_yarnLockExists = True,
      e_install = Inr (), e_audit = Inl ExecError,
      e_JSON_parse = (\<lambda>text. Inr (Some \<lparr>n_vulnerabilities = None\<rparr>))\<rparr>"

definition bad_report_env :: AuditEnv where
  "bad_report_env =
     \<lparr>e_packageJsonExists = True, e_packageLockExists = True, e_yarnLockExists = False,
      e_install = Inr (), e_audit = Inr ''npm ERR! audit endpoint returned an error'',
      e_JSON_parse = (\<lambda>text. Inl SyntaxError)\<rparr>"

section \<open>Properties of the scorer\<close>

lemma get_property_own:
  "\<not> inherited_key c \<Longrightarrow> or_zero (get_property CATEGORY_WEIGHTS c) = Number (categoryWeight c)"
  by (simp add: get_property_def CATEGORY_WEIGHTS_def inherited_key_def)


lemma score_code_finding_own:
  "\<not> inherited_key (f_category f) \<Longrightarrow>
     score_code_finding (Num s) f = Num (s + code_contribution f)"
  by (simp add: score_code_finding_def get_property_own code_contribution_def del: categoryWeight.simps)


lemma foldl_score_code:
  "\<forall>f \<in> set cs. \<not> inherited_key (f_category f) \<Longrightarrow>
     foldl score_code_finding (Num s) cs = Num (s + sum_list (map code_contribution cs))"
  by (induction cs arbitrary: s) (simp_all add: score_code_finding_own)

lemma foldl_score_dependency:
  "foldl score_dependency_finding (Num s) ds = Num (s + sum_list (map dependency_contribution ds))"
  by (induction ds arbitrary: s)
     (simp_all add: score_dependency_finding_def dependency_contribution_def)



text \<open>
  On findings whose categories are not inherited property names, the scorer computes the
  capped sum of the specification.
\<close>

lemma calculateRiskScore_own_categories:
  assumes "\<forall>f \<in> set cs. \<not> inherited_key (f_category f)"
  shows "calculateRiskScore cs ds = Num (spec_score cs ds)"
  using assms
  by (simp add: calculateRiskScore_def foldl_score_code foldl_score_dependency
      spec_score_def raw_score_def min.commute)


lemma code_contribution_pos: "0 < code_contribution f"
  by (cases "f_severity f") (simp_all add: code_contribution_def del: categoryWeight.simps)

lemma dependency_contribution_pos: "0 < dependency_contribution d"
  by (cases "d_severity d") (simp_all add: dependency_contribution_def)

lemma raw_score_nonneg: "0 \<le> raw_score cs ds"
proof -
  have "0 \<le> sum_list (map code_contribution cs)"
    by (rule sum_list_nonneg) (auto simp: less_imp_le [OF code_contribution_pos])
  moreover have "0 \<le> sum_list (map dependency_contribution ds)"
    by (rule sum_list_nonneg) (auto simp: less_imp_le [OF dependency_contribution_pos])
  ultimately show ?thesis by (simp add: raw_score_def)
qed

lemma spec_score_range: "0 \<le> spec_score cs ds \<and> spec_score cs ds \<le> 100"
  using raw_score_nonneg [of cs ds] by (simp add: spec_score_def)

lemma getRiskLevel_table:
  "getRiskLevel (Num n) =
     (if n = 0 then SafeLevel else if n \<le> 20 then LowLevel else if n \<le> 50 then MediumLevel
      else if n \<le> 75 then HighLevel else CriticalLevel)"
  by (simp add: getRiskLevel_def)

text \<open>On integer scores the level follows the table, boundaries included.\<close>

lemma getRiskLevel_ranges:
  "getRiskLevel (Num 0) = SafeLevel"
  "1 \<le> n \<Longrightarrow> n \<le> 20 \<Longrightarrow> getRiskLevel (Num n) = LowLevel"
  "21 \<le> n \<Longrightarrow> n \<le> 50 \<Longrightarrow> getRiskLevel (Num n) = MediumLevel"
  "51 \<le> n \<Longrightarrow> n \<le> 75 \<Longrightarrow> getRiskLevel (Num n) = HighLevel"
  "76 \<le> n \<Longrightarrow> getRiskLevel (Num n) = CriticalLevel"
  by (simp_all add: getRiskLevel_def)

lemma getRiskLevel_boundaries:
  "map (\<lambda>n. getRiskLevel (Num n)) [0, 1, 20, 21, 50, 51, 75, 76, 100] =
     [SafeLevel, LowLevel, LowLevel, MediumLevel, MediumLevel, HighLevel, HighLevel,
      CriticalLevel, CriticalLevel]"
  by (simp add: getRiskLevel_def)

lemma getRiskLevel_mono:
  "0 \<le> a \<Longrightarrow> a \<le> b \<Longrightarrow>
     level_rank (getRiskLevel (Num a)) \<le> level_rank (getRiskLevel (Num b))"
  by (simp add: getRiskLevel_def)

text \<open>
  On findings whose categories are not inherited property names, one more finding never
  lowers the score.
\<close>

lemma calculateRiskScore_append_code:
  assumes "\<forall>g \<in> set cs. \<not> inherited_key (f_category g)" and "\<not> inherited_key (f_category f)"
  shows "\<exists>a b. calculateRiskScore cs ds = Num a \<and> calculateRiskScore (cs @ [f]) ds = Num b
           \<and> a \<le> b"
proof -
  have "raw_score cs ds \<le> raw_score (cs @ [f]) ds"
    using code_contribution_pos [of f] by (simp add: raw_score_def)
  then have "spec_score cs ds \<le> spec_score (cs @ [f]) ds"
    by (simp add: spec_score_def)
  moreover have "calculateRiskScore cs ds = Num (spec_score cs ds)"
    using assms by (simp add: calculateRiskScore_own_categories)
  moreover have "calculateRiskScore (cs @ [f]) ds = Num (spec_score (cs @ [f]) ds)"
    using assms by (simp add: calculateRiskScore_own_categories)
  ultimately show ?thesis by simp
qed

lemma calculateRiskScore_append_dependency:
  assumes "\<forall>g \<in> set cs. \<not> inherited_key (f_category g)"
  shows "\<exists>a b. calculateRiskScore cs ds = Num a \<and> calculateRiskScore cs (ds @ [d]) = Num b
           \<and> a \<le> b"
proof -
  have "raw_score cs ds \<le> raw_score cs (ds @ [d])"
    using dependency_contribution_pos [of d] by (simp add: raw_score_def)
  then have "spec_score cs ds \<le> spec_score cs (ds @ [d])"
    by (simp add: spec_score_def)
  then show ?thesis
    using assms by (simp add: calculateRiskScore_own_categories)
qed




section \<open>Severity normalisation\<close>

text \<open>
  Claim C4: \<^verbatim>\<open>mapNpmSeverity\<close> maps, without regard to case, \<^verbatim>\<open>critical\<close> to critical,
  \<^verbatim>\<open>high\<close> to high, \<^verbatim>\<open>moderate\<close> and \<^verbatim>\<open>medium\<close> to medium, \<^verbatim>\<open>low\<close> and
  \<^verbatim>\<open>info\<close> to low and every other string to medium; \<^verbatim>\<open>mapCvssToSeverity\<close> returns
  critical from \<open>9.0\<close>, high from \<open>7.0\<close>, medium from \<open>4.0\<close> and low otherwise (also
  for \<^verbatim>\<open>NaN\<close> and for minus infinity).
\<close>

theorem severity_normalization:
  "(toLowerCase s = ''critical'' \<longrightarrow> mapNpmSeverity s = Critical) \<and>
   (toLowerCase s = ''high'' \<longrightarrow> mapNpmSeverity s = High) \<and>
   (toLowerCase s = ''moderate'' \<or> toLowerCase s = ''medium'' \<longrightarrow> mapNpmSeverity s = Medium) \<and>
   (toLowerCase s = ''low'' \<or> toLowerCase s = ''info'' \<longrightarrow> mapNpmSeverity s = Low) \<and>
   (toLowerCase s \<notin> {''critical'', ''high'', ''moderate'', ''medium'', ''low'', ''info''}
      \<longrightarrow> mapNpmSeverity s = Medium) \<and>
   (9 \<le> x \<longrightarrow> mapCvssToSeverity (Finite x) = Critical) \<and>
   (7 \<le> x \<and> x < 9 \<longrightarrow> mapCvssToSeverity (Finite x) = High) \<and>
   (4 \<le> x \<and> x < 7 \<longrightarrow> mapCvssToSeverity (Finite x) = Medium) \<and>
   (x < 4 \<longrightarrow> mapCvssToSeverity (Finite x) = Low) \<and>
   mapCvssToSeverity PosInfinity = Critical \<and>
   mapCvssToSeverity NegInfinity = Low \<and>
   mapCvssToSeverity NotANumber = Low"
  by (simp add: mapNpmSeverity_def mapCvssToSeverity_def)

lemma toLowerCase_examples:
  "toLowerCase ''CRITICAL'' = ''critical''" "toLowerCase ''High'' = ''high''"
  "toLowerCase ''Moderate'' = ''moderate''" "toLowerCase ''INFO'' = ''info''"
  "toLowerCase ''unknown'' = ''unknown''"
  by (simp_all add: toLowerCase_def lower_char_def)

theorem severity_normalization_witness:
  "mapNpmSeverity ''CRITICAL'' = Critical \<and> mapNpmSeverity ''High'' = High \<and>
   mapNpmSeverity ''Moderate'' = Medium \<and> mapNpmSeverity ''INFO'' = Low \<and>
   mapNpmSeverity ''unknown'' = Medium \<and>
   mapCvssToSeverity (Finite 9) = Critical \<and> mapCvssToSeverity (Finite 8.9) = High \<and>
   mapCvssToSeverity (Finite 4) = Medium \<and> mapCvssToSeverity (Finite 3.9) = Low"
  using severity_normalization [of "''CRITICAL''" 9]
    severity_normalization [of "''High''" "8.9"]
    severity_normalization [of "''Moderate''" 4]
    severity_normalization [of "''INFO''" "3.9"]
    severity_normalization [of "''unknown''" 0]
  by (simp add: toLowerCase_examples)

section \<open>The merge of audit and database findings\<close>

lemma keyed_Nil: "keyed key []"
  by (simp add: keyed_def)

lemma keyed_Map_set:
  assumes "keyed key m"
  shows "keyed key (Map_set key m f)"
proof -
  have "set (AList.update (key f) f m) \<subseteq> insert (key f, f) (set m)"
    by (induction m) auto
  then have "\<forall>(k, v) \<in> set (AList.update (key f) f m). key v = k"
    using assms by (auto simp: keyed_def)
  moreover have "distinct (map fst (AList.update (key f) f m))"
    using assms by (simp add: keyed_def distinct_update)
  ultimately show ?thesis
    by (simp add: keyed_def Map_set_def)
qed

lemma map_of_Map_set:
  "map_of (Map_set key m f) k = (if key f = k then Some f else map_of m k)"
  by (auto simp: Map_set_def update_conv')

lemma keyed_foldl: "keyed key m \<Longrightarrow> keyed key (foldl (Map_set key) m fs)"
  by (induction fs arbitrary: m) (simp_all add: keyed_Map_set)

text \<open>After a run of \<^verbatim>\<open>set\<close> calls a key holds the last value stored under it.\<close>

lemma map_of_foldl_Map_set:
  "map_of (foldl (Map_set key) m fs) k =
     (if \<exists>f \<in> set fs. key f = k then Some (last (filter (\<lambda>f. key f = k) fs)) else map_of m k)"
proof (induction fs arbitrary: m rule: rev_induct)
  case Nil
  then show ?case by simp
next
  case (snoc f fs)
  show ?case
    by (auto simp: snoc map_of_Map_set)
qed

lemma keyed_filter:
  "keyed key m \<Longrightarrow>
     filter (\<lambda>f. key f = k) (map snd m) = (case map_of m k of None \<Rightarrow> [] | Some v \<Rightarrow> [v])"
proof (induction m)
  case Nil
  then show ?case by simp
next
  case (Cons p m)
  obtain k' v' where p: "p = (k', v')" by (cases p)
  from Cons.prems have km: "keyed key m" and kv: "key v' = k'" and fresh: "k' \<notin> fst ` set m"
    by (auto simp: keyed_def p)
  have none: "map_of m k' = None"
    using fresh by (simp add: map_of_eq_None_iff)
  show ?case
    using Cons.IH [OF km] kv none by (auto simp: p split: option.splits)
qed

lemma scanVulnerabilities_under_key:
  assumes "n \<in> set npmFindings"
  shows "filter (\<lambda>f. merge_key f = merge_key n) (scanVulnerabilities npmFindings osvFindings)
           = [last (filter (\<lambda>g. merge_key g = merge_key n) npmFindings)]"
proof -
  let ?m = "foldl (Map_set merge_key) (foldl (Map_set merge_key) [] osvFindings) npmFindings"
  have k: "keyed merge_key ?m"
    by (intro keyed_foldl keyed_Nil)
  have "map_of ?m (merge_key n)
      = Some (last (filter (\<lambda>g. merge_key g = merge_key n) npmFindings))"
    using assms by (auto simp: map_of_foldl_Map_set)
  then show ?thesis
    using keyed_filter [OF k, of "merge_key n"] by (simp add: scanVulnerabilities_def)
qed

text \<open>
  Claim C6: in the merge of \<^verbatim>\<open>scanVulnerabilities\<close>, an audit finding overrides a
  database finding with the same key \<^verbatim>\<open>name:cveId-or-reason\<close>. Under the key of any
  audit finding the returned list holds exactly one finding, the audit finding stored
  last under that key; a database finding with that key that is not itself an audit
  finding is not returned.
\<close>

theorem audit_finding_overrides:
  assumes "n \<in> set npmFindings"
  shows "filter (\<lambda>f. merge_key f = merge_key n) (scanVulnerabilities npmFindings osvFindings)
           = [last (filter (\<lambda>g. merge_key g = merge_key n) npmFindings)]
     \<and> (\<forall>d \<in> set osvFindings. merge_key d = merge_key n \<and> d \<notin> set npmFindings
           \<longrightarrow> d \<notin> set (scanVulnerabilities npmFindings osvFindings))"
proof (intro conjI ballI impI)
  show one: "filter (\<lambda>f. merge_key f = merge_key n) (scanVulnerabilities npmFindings osvFindings)
           = [last (filter (\<lambda>g. merge_key g = merge_key n) npmFindings)]"
    by (rule scanVulnerabilities_under_key [OF assms])
  fix d
  assume d: "merge_key d = merge_key n \<and> d \<notin> set npmFindings"
  show "d \<notin> set (scanVulnerabilities npmFindings osvFindings)"
  proof
    assume "d \<in> set (scanVulnerabilities npmFindings osvFindings)"
    with d have "d \<in> set (filter (\<lambda>f. merge_key f = merge_key n)
        (scanVulnerabilities npmFindings osvFindings))"
      by simp
    then have "d = last (filter (\<lambda>g. merge_key g = merge_key n) npmFindings)"
      unfolding one by simp
    moreover have "filter (\<lambda>g. merge_key g = merge_key n) npmFindings \<noteq> []"
      using assms by (auto simp: filter_empty_conv)
    ultimately have "d \<in> set (filter (\<lambda>g. merge_key g = merge_key n) npmFindings)"
      using last_in_set by metis
    with d show False by simp
  qed
qed

lemma lodash_same_key: "merge_key lodash_osv_finding = merge_key lodash_audit_finding"
  by (simp add: merge_key_def cveId_or_reason_def lodash_osv_finding_def
      lodash_audit_finding_def)

lemma lodash_differ: "lodash_osv_finding \<noteq> lodash_audit_finding"
  by (simp add: lodash_osv_finding_def lodash_audit_finding_def)

theorem audit_finding_overrides_witness:
  "lodash_audit_finding \<in> set [lodash_audit_finding]
   \<and> merge_key lodash_osv_finding = merge_key lodash_audit_finding
   \<and> filter (\<lambda>f. merge_key f = merge_key lodash_audit_finding)
        (scanVulnerabilities [lodash_audit_finding] [lodash_osv_finding])
      = [lodash_audit_finding]
   \<and> lodash_osv_finding \<notin> set (scanVulnerabilities [lodash_audit_finding] [lodash_osv_finding])"
  using audit_finding_overrides [of lodash_audit_finding "[lodash_audit_finding]"
      "[lodash_osv_finding]"]
  by (simp add: lodash_same_key lodash_differ)

section \<open>The dependency inspector\<close>

lemma toLowerCase_lodahs: "toLowerCase ''lodahs'' = ''lodahs''"
  by (simp add: toLowerCase_def lower_char_def)

lemma checkDependency_lodahs:
  "checkDependency ''lodahs''
     = Some (new_finding ''lodahs'' Critical ''Typosquatting of lodash - malicious package''
               ThreatDb)"
  by (simp add: checkDependency_def THREAT_DATABASE_def toLowerCase_def lower_char_def)

lemma lodahs_dependencies: "getAllDependencies lodahs_manifest = [''lodahs'']"
  by (simp add: getAllDependencies_def addDeps_def Set_add_def lodahs_manifest_def)

lemma lodahs_scan: "scanVulnerabilities [lodahs_audit_finding] [] = [lodahs_audit_finding]"
  by (simp add: scanVulnerabilities_def Map_set_def)

lemma lodahs_keys:
  "identity_key (new_finding ''lodahs'' Critical
       ''Typosquatting of lodash - malicious package'' ThreatDb)
     = ''lodahs:Typosquatting of lodash - malicious package''"
  "identity_key lodahs_audit_finding = ''lodahs:Typosquatting of lodash - malicious package''"
  by (simp_all add: identity_key_def cveId_or_reason_def new_finding_def
      lodahs_audit_finding_def toLowerCase_lodahs)

text \<open>
  Claim C1: every finding in the list \<^verbatim>\<open>inspectDependenciesAsync\<close> returns has an
  identity key (lower-cased name, a colon, the CVE id or else the reason) of its own; a
  package flagged by the threat table and by a remote source under one identity key is
  reported once, with the finding of the threat table.

  The code builds \<^verbatim>\<open>existingKeys\<close> from the lower-cased names of the threat findings
  alone and then looks up keys of the form \<^verbatim>\<open>name:cveId-or-reason\<close> in it, so a
  threat finding never stops a vulnerability. For the manifest that declares
  \<^verbatim>\<open>lodahs\<close> and an audit finding for \<^verbatim>\<open>lodahs\<close> with the reason of the threat
  table and no CVE id, both findings are returned, with one identity key.
\<close>

theorem threat_and_audit_reported_twice:
  "inspectDependenciesAsync (Some lodahs_manifest)
      (Inr (scanVulnerabilities [lodahs_audit_finding] []) :: unit + DependencyFinding list)
     = [new_finding ''lodahs'' Critical ''Typosquatting of lodash - malicious package''
          ThreatDb,
        lodahs_audit_finding]
   \<and> identity_key (new_finding ''lodahs'' Critical
         ''Typosquatting of lodash - malicious package'' ThreatDb)
     = identity_key lodahs_audit_finding"
proof -
  have keys: "identity_key lodahs_audit_finding \<noteq> ''lodahs''"
    by (simp add: lodahs_keys)
  have sev: "d_severity lodahs_audit_finding = Critical"
    "d_severity (new_finding ''lodahs'' Critical
        ''Typosquatting of lodash - malicious package'' ThreatDb) = Critical"
    by (simp_all add: lodahs_audit_finding_def new_finding_def)
  have name: "d_name (new_finding ''lodahs'' Critical
      ''Typosquatting of lodash - malicious package'' ThreatDb) = ''lodahs''"
    by (simp add: new_finding_def)
  show ?thesis
    by (simp add: inspectDependenciesAsync_def lodahs_dependencies List.map_filter_def
        checkDependency_lodahs lodahs_scan add_vulnerability_def Set_add_def
        toLowerCase_lodahs keys name sortFindings_def sev lodahs_keys)
qed

section \<open>The manifest\<close>

lemma split_char_nonempty: "split_char sep s \<noteq> []"
  by (induction s) (auto split: list.splits)

lemma hd_split_char: "hd (split_char sep s) = takeWhile (\<lambda>c. c \<noteq> sep) s"
  using split_char_nonempty [of sep]
  by (induction s) (auto split: list.splits)

lemma cleanVersion_spec: "cleanVersion versionRange = first_token (stripped versionRange)"
proof -
  have "rangeOperator = (\<lambda>c. c \<in> {CHR ''^'', CHR ''~'', CHR ''>'', CHR ''='', CHR ''<''})"
    by (auto simp: rangeOperator_def fun_eq_iff)
  then show ?thesis
    by (simp add: cleanVersion_def hd_split_char first_token_def stripped_def)
qed

lemma foldl_push_dep:
  "foldl (push_dep isDev) packages obj = packages @ map (package_ref isDev) obj"
  by (induction obj arbitrary: packages)
     (auto simp: push_dep_def package_ref_def cleanVersion_spec)

lemma extractManifestDeps_eq:
  "extractManifestDeps packages deps isDev = packages @ map (package_ref isDev) (entries deps)"
  by (simp add: extractManifestDeps_def entries_def foldl_push_dep split: option.splits)

text \<open>
  Claim C7: for every entry of the four dependency sections of the manifest,
  \<^verbatim>\<open>parsePackageJson\<close> returns the name with the version range cleaned: the leading
  characters among \<^verbatim>\<open>^ ~ > = <\<close> stripped, and of the rest the first space-delimited
  token kept. The sections come in the order dependencies, devDependencies (the only one
  flagged dev), peerDependencies, optionalDependencies; the range \<^verbatim>\<open>^4.17.21\<close> gives
  the version \<^verbatim>\<open>4.17.21\<close>.
\<close>

theorem parsePackageJson_cleans_versions:
  "parsePackageJson (Parsed pkgJson) =
     map (package_ref False) (entries (p_dependencies pkgJson))
     @ map (package_ref True) (entries (p_devDependencies pkgJson))
     @ map (package_ref False) (entries (p_peerDependencies pkgJson))
     @ map (package_ref False) (entries (p_optionalDependencies pkgJson))
   \<and> first_token (stripped ''^4.17.21'') = ''4.17.21''
   \<and> parsePackageJson (Parsed \<lparr>p_dependencies = Some [(''lodash'', ''^4.17.21'')],
        p_devDependencies = None, p_peerDependencies = None, p_optionalDependencies = None\<rparr>)
      = [\<lparr>r_name = ''lodash'', r_version = ''4.17.21'', r_isDev = False\<rparr>]"
  by (simp add: parsePackageJson_def extractManifestDeps_eq entries_def package_ref_def
      first_token_def stripped_def)

section \<open>The nested lock file\<close>

lemma dev_or_devOnly: "dev_or (l_dev info) b = (devOnly info \<or> b)"
  by (auto simp: dev_or_def devOnly_def split: option.splits)

text \<open>
  What \<^verbatim>\<open>extractDeps\<close> pushes: one element for each visited node that has a version,
  in the order of the visit, flagged dev when the node or one of the entries above it is
  dev-only.
\<close>

lemma extractDeps_nodes:
  "isDev = list_ex devOnly ancestors \<Longrightarrow>
     extractDeps deps isDev = map emitted (filter versioned (nodes deps ancestors))"
proof (induction deps isDev arbitrary: ancestors rule: extractDeps.induct)
  case (1 isDev)
  then show ?case by simp
next
  case (2 name info deps isDev)
  have inner: "extractDeps (l_dependencies info) (dev_or (l_dev info) isDev)
      = map emitted (filter versioned (nodes (l_dependencies info) (info # ancestors)))"
    by (rule "2.IH"(1)) (simp add: dev_or_devOnly "2.prems")
  have rest: "extractDeps deps isDev = map emitted (filter versioned (nodes deps ancestors))"
    by (rule "2.IH"(2)) (rule "2.prems")
  have head: "emitted (name, info, ancestors)
      = \<lparr>r_name = name, r_version = the (l_version info),
         r_isDev = dev_or (l_dev info) isDev\<rparr>"
    by (simp add: emitted_def dev_or_devOnly "2.prems")
  have keep: "versioned (name, info, ancestors) = truthy_opt (l_version info)"
    by (simp add: versioned_def)
  show ?case
    by (simp add: inner rest head keep)
qed

lemma parseLockFile_nested:
  "parseLockFile (Parsed \<lparr>ld_packages = None, ld_dependencies = Some deps\<rparr>)
     = map emitted (filter versioned (nodes deps []))"
  by (simp add: parseLockFile_def extractDeps_nodes [of False "[]"])

text \<open>
  Claim C8: when \<^verbatim>\<open>parseLockFile\<close> reads the nested schema, every package that has a
  dev-only entry in its ancestor chain is emitted with \<^verbatim>\<open>isDev = true\<close>. A package is
  a node of the nested map with a nonempty version, as every entry of a well-formed lock
  file has.
\<close>

theorem nested_dev_flag_propagates:
  assumes "(name, info, ancestors) \<in> set (nodes deps [])"
    and "list_ex devOnly ancestors"
    and "truthy_opt (l_version info)"
  shows "\<lparr>r_name = name, r_version = the (l_version info), r_isDev = True\<rparr>
           \<in> set (parseLockFile (Parsed \<lparr>ld_packages = None, ld_dependencies = Some deps\<rparr>))"
proof -
  have "(name, info, ancestors) \<in> set (filter versioned (nodes deps []))"
    using assms by (simp add: versioned_def)
  moreover have "emitted (name, info, ancestors)
      = \<lparr>r_name = name, r_version = the (l_version info), r_isDev = True\<rparr>"
    using assms by (simp add: emitted_def)
  ultimately show ?thesis
    unfolding parseLockFile_nested by (metis image_eqI set_map)
qed

theorem nested_dev_flag_propagates_witness:
  "(''chalk'', chalk_entry, [jest_entry]) \<in> set (nodes [(''jest'', jest_entry)] [])
   \<and> list_ex devOnly [jest_entry] \<and> truthy_opt (l_version chalk_entry)
   \<and> \<lparr>r_name = ''chalk'', r_version = ''4.1.2'', r_isDev = True\<rparr>
        \<in> set (parseLockFile (Parsed nested_lock))"
proof -
  have a: "(''chalk'', chalk_entry, [jest_entry]) \<in> set (nodes [(''jest'', jest_entry)] [])"
    by (simp add: jest_entry_def chalk_entry_def)
  have b: "list_ex devOnly [jest_entry]"
    by (simp add: devOnly_def jest_entry_def)
  have c: "truthy_opt (l_version chalk_entry)"
    by (simp add: truthy_opt_def truthy_def chalk_entry_def)
  show ?thesis
    using nested_dev_flag_propagates [OF a b c] a b c
    by (simp add: nested_lock_def chalk_entry_def)
qed

section \<open>The fallback of the batch query\<close>

lemma requests_query_one:
  "q_requests (query_one net st pkg) = q_requests st @ [(r_name pkg, r_version pkg)]"
  by (simp add: query_one_def Let_def)

lemma requests_individual_queries:
  "q_requests (individual_queries net st packages)
     = q_requests st @ map (\<lambda>p. (r_name p, r_version p)) packages"
  unfolding individual_queries_def
  by (induction packages arbitrary: st) (simp_all add: requests_query_one)

lemma results_query_one:
  "map_of (q_results (query_one net st pkg)) k =
     (if k = pkgKey pkg \<and> queryOsv net (length (q_requests st)) (r_name pkg) (r_version pkg) \<noteq> []
      then Some (queryOsv net (length (q_requests st)) (r_name pkg) (r_version pkg))
      else map_of (q_results st) k)"
  by (simp add: query_one_def Let_def update_conv')

lemma results_other_keys:
  "k \<notin> pkgKey ` set packages \<Longrightarrow>
     map_of (q_results (individual_queries net st packages)) k = map_of (q_results st) k"
  unfolding individual_queries_def
  by (induction packages arbitrary: st) (simp_all add: results_query_one)

lemma individual_queries_split:
  "individual_queries net st (pre @ p # post)
     = individual_queries net (query_one net (individual_queries net st pre) p) post"
  by (simp add: individual_queries_def)

lemma results_individual_queries:
  assumes "pkgKey p \<notin> pkgKey ` set post"
  shows "map_of (q_results (individual_queries net st (pre @ p # post))) (pkgKey p) =
     (if queryOsv net (length (q_requests st) + length pre) (r_name p) (r_version p) \<noteq> []
      then Some (queryOsv net (length (q_requests st) + length pre) (r_name p) (r_version p))
      else map_of (q_results (individual_queries net st pre)) (pkgKey p))"
proof -
  let ?mid = "individual_queries net st pre"
  have len: "length (q_requests ?mid) = length (q_requests st) + length pre"
    by (simp add: requests_individual_queries)
  have "map_of (q_results (individual_queries net st (pre @ p # post))) (pkgKey p)
      = map_of (q_results (query_one net ?mid p)) (pkgKey p)"
    unfolding individual_queries_split by (rule results_other_keys [OF assms])
  also have "\<dots> =
     (if queryOsv net (length (q_requests ?mid)) (r_name p) (r_version p) \<noteq> []
      then Some (queryOsv net (length (q_requests ?mid)) (r_name p) (r_version p))
      else map_of (q_results ?mid) (pkgKey p))"
    by (simp only: results_query_one simp_thms)
  finally show ?thesis
    unfolding len .
qed

lemma batch_failed_individual:
  "response = BatchRejected \<or> response = BatchStatusNotOk \<Longrightarrow>
     batchQueryOsv net response packages
       = individual_queries net \<lparr>q_requests = [], q_results = []\<rparr> packages"
  by (auto simp: batchQueryOsv_def)

lemma fallback_requests:
  "q_requests (individual_queries net \<lparr>q_requests = [], q_results = []\<rparr> packages)
     = map (\<lambda>p. (r_name p, r_version p)) packages"
  by (simp add: requests_individual_queries)

lemma fallback_answered:
  assumes "pkgKey p \<notin> pkgKey ` set post"
    and "queryOsv net (length pre) (r_name p) (r_version p) \<noteq> []"
  shows "map_of (q_results (individual_queries net \<lparr>q_requests = [], q_results = []\<rparr>
            (pre @ p # post))) (pkgKey p)
         = Some (queryOsv net (length pre) (r_name p) (r_version p))"
  using results_individual_queries
      [OF assms(1), of net "\<lparr>q_requests = [], q_results = []\<rparr>" pre] assms(2)
  by simp

lemma fallback_skipped:
  assumes "pkgKey p \<notin> pkgKey ` set (pre @ post)"
    and "queryOsv net (length pre) (r_name p) (r_version p) = []"
  shows "map_of (q_results (individual_queries net \<lparr>q_requests = [], q_results = []\<rparr>
            (pre @ p # post))) (pkgKey p) = None"
proof -
  from assms(1) have post: "pkgKey p \<notin> pkgKey ` set post"
    and pre: "pkgKey p \<notin> pkgKey ` set pre"
    by auto
  show ?thesis
    using results_individual_queries
        [OF post, of net "\<lparr>q_requests = [], q_results = []\<rparr>" pre]
      results_other_keys [OF pre, of net "\<lparr>q_requests = [], q_results = []\<rparr>"] assms(2)
    by simp
qed

text \<open>
  Claim C5: when the batched query fails, by a status that is not a success or by a
  thrown network error, \<^verbatim>\<open>batchQueryOsv\<close> issues exactly one individual query per
  package of the batch, in order; a package whose individual query gives vulnerabilities
  has them in the result map whatever happens to the other queries, and a package whose
  individual query fails or gives nothing is the only one skipped. (Two packages with
  the same name and version share a key of the map; the statement is about the last
  package of a key, and about a key no other package has.)
\<close>

theorem batch_failure_falls_back:
  assumes "response = BatchRejected \<or> response = BatchStatusNotOk"
  shows "q_requests (batchQueryOsv net response packages)
           = map (\<lambda>p. (r_name p, r_version p)) packages
     \<and> (\<forall>pre p post. packages = pre @ p # post \<and> pkgKey p \<notin> pkgKey ` set post
           \<and> queryOsv net (length pre) (r_name p) (r_version p) \<noteq> []
          \<longrightarrow> map_of (q_results (batchQueryOsv net response packages)) (pkgKey p)
                = Some (queryOsv net (length pre) (r_name p) (r_version p)))
     \<and> (\<forall>pre p post. packages = pre @ p # post \<and> pkgKey p \<notin> pkgKey ` set (pre @ post)
           \<and> queryOsv net (length pre) (r_name p) (r_version p) = []
          \<longrightarrow> map_of (q_results (batchQueryOsv net response packages)) (pkgKey p) = None)"
  unfolding batch_failed_individual [OF assms]
proof (intro conjI allI impI)
  show "q_requests (individual_queries net \<lparr>q_requests = [], q_results = []\<rparr> packages)
      = map (\<lambda>p. (r_name p, r_version p)) packages"
    by (rule fallback_requests)
next
  fix pre p post
  assume "packages = pre @ p # post \<and> pkgKey p \<notin> pkgKey ` set post
      \<and> queryOsv net (length pre) (r_name p) (r_version p) \<noteq> []"
  then have eq: "packages = pre @ p # post" and fresh: "pkgKey p \<notin> pkgKey ` set post"
    and answer: "queryOsv net (length pre) (r_name p) (r_version p) \<noteq> []"
    by simp_all
  show "map_of (q_results (individual_queries net \<lparr>q_requests = [], q_results = []\<rparr>
      packages)) (pkgKey p) = Some (queryOsv net (length pre) (r_name p) (r_version p))"
    unfolding eq by (rule fallback_answered [OF fresh answer])
next
  fix pre p post
  assume "packages = pre @ p # post \<and> pkgKey p \<notin> pkgKey ` set (pre @ post)
      \<and> queryOsv net (length pre) (r_name p) (r_version p) = []"
  then have eq: "packages = pre @ p # post"
    and fresh: "pkgKey p \<notin> pkgKey ` set (pre @ post)"
    and answer: "queryOsv net (length pre) (r_name p) (r_version p) = []"
    by simp_all
  show "map_of (q_results (individual_queries net \<lparr>q_requests = [], q_results = []\<rparr>
      packages)) (pkgKey p) = None"
    unfolding eq by (rule fallback_skipped [OF fresh answer])
qed

theorem batch_failure_falls_back_witness:
  "q_requests (batchQueryOsv flaky_network BatchStatusNotOk three_packages)
     = [(''alpha'', ''1.0.0''), (''beta'', ''2.0.0''), (''gamma'', ''3.0.0'')]
   \<and> map_of (q_results (batchQueryOsv flaky_network BatchStatusNotOk three_packages))
        ''gamma@3.0.0'' = Some [''GHSA-gamma'']
   \<and> map_of (q_results (batchQueryOsv flaky_network BatchStatusNotOk three_packages))
        ''beta@2.0.0'' = None"
proof -
  let ?a = "\<lparr>r_name = ''alpha'', r_version = ''1.0.0'', r_isDev = False\<rparr>"
  let ?b = "\<lparr>r_name = ''beta'', r_version = ''2.0.0'', r_isDev = False\<rparr>"
  let ?c = "\<lparr>r_name = ''gamma'', r_version = ''3.0.0'', r_isDev = True\<rparr>"
  note fb = batch_failure_falls_back [OF disjI2 [OF refl], of flaky_network three_packages]
  have req: "q_requests (batchQueryOsv flaky_network BatchStatusNotOk three_packages)
     = [(''alpha'', ''1.0.0''), (''beta'', ''2.0.0''), (''gamma'', ''3.0.0'')]"
    using fb [THEN conjunct1] by (simp add: three_packages_def)
  have c: "map_of (q_results (batchQueryOsv flaky_network BatchStatusNotOk three_packages))
        (pkgKey ?c) = Some (queryOsv flaky_network (length [?a, ?b]) (r_name ?c) (r_version ?c))"
    by (rule fb [THEN conjunct2, THEN conjunct1, rule_format,
          where pre = "[?a, ?b]" and p = ?c and post = "[]"])
       (simp add: three_packages_def queryOsv_def flaky_network_def)
  have b: "map_of (q_results (batchQueryOsv flaky_network BatchStatusNotOk three_packages))
        (pkgKey ?b) = None"
    by (rule fb [THEN conjunct2, THEN conjunct2, rule_format,
          where pre = "[?a]" and p = ?b and post = "[?c]"])
       (simp add: three_packages_def queryOsv_def flaky_network_def pkgKey_def)
  show ?thesis
    using req b c by (simp add: pkgKey_def queryOsv_def flaky_network_def)
qed

section \<open>The audit runner\<close>

text \<open>
  Claim C9: \<^verbatim>\<open>runNpmAudit\<close> returns the empty list at once when the directory has no
  manifest; an exception of the lock-file synthesis, of the audit command or of
  \<^verbatim>\<open>JSON.parse\<close> is caught and the result is the empty list; and for every directory
  the function returns a list and does not raise. (A throw while an entry of the parsed
  report is read is caught as well; the result then holds the findings pushed before.)
\<close>

theorem runNpmAudit_never_raises:
  "(\<exists>findings. runNpmAudit env = Inr findings) \<and>
   (\<not> e_packageJsonExists env \<longrightarrow> runNpmAudit env = Inr []) \<and>
   (\<not> e_packageLockExists env \<and> \<not> e_yarnLockExists env \<and> isl (e_install env)
      \<longrightarrow> runNpmAudit env = Inr []) \<and>
   (isl (e_audit env) \<longrightarrow> runNpmAudit env = Inr []) \<and>
   (\<forall>result. e_audit env = Inr result \<and> isl (e_JSON_parse env result)
      \<longrightarrow> runNpmAudit env = Inr [])"
  by (auto simp: runNpmAudit_def lock_block_def audit_block_def Let_def isl_def
      split: completion.splits sum.splits option.splits prod.splits)

theorem runNpmAudit_never_raises_witness:
  "runNpmAudit no_manifest_env = Inr [] \<and> runNpmAudit install_fails_env = Inr []
   \<and> runNpmAudit audit_fails_env = Inr [] \<and> runNpmAudit bad_report_env = Inr []"
  using runNpmAudit_never_raises [of no_manifest_env]
    runNpmAudit_never_raises [of install_fails_env]
    runNpmAudit_never_raises [of audit_fails_env]
    runNpmAudit_never_raises [of bad_report_env]
  by (simp add: no_manifest_env_def install_fails_env_def audit_fails_env_def
      bad_report_env_def)

end
